theory Spec2Isabelle
  imports Complex_Main
begin

section \<open>Arrays, dtypes and errors\<close>

text \<open>
  A two-dimensional numpy array is its shape together with its element lookup. Keeping the
  shape beside the elements keeps arrays with no rows or no columns apart, as numpy does.
  Elements outside the shape are never read by the operations below.
\<close>

record 'a ndarray =
  nrows :: nat
  ncols :: nat
  elem :: "nat \<Rightarrow> nat \<Rightarrow> 'a"

text \<open>
  A float element. Dividing by zero does not raise under numpy's default error state: it
  yields an infinity, or NaN for \<open>0 / 0\<close>. Finite values are kept as exact reals; rounding
  is not modelled.
\<close>

datatype npfloat = Finite real | PosInf | NegInf | NaN

datatype np_dtype = Bool_dtype | Int_dtype | Float_dtype

datatype array = BoolArr "bool ndarray" | IntArr "int ndarray" | FloatArr "npfloat ndarray"

fun dtype :: "array \<Rightarrow> np_dtype" where
  "dtype (BoolArr a) = Bool_dtype"
| "dtype (IntArr a) = Int_dtype"
| "dtype (FloatArr a) = Float_dtype"

fun shape :: "array \<Rightarrow> nat \<times> nat" where
  "shape (BoolArr a) = (nrows a, ncols a)"
| "shape (IntArr a) = (nrows a, ncols a)"
| "shape (FloatArr a) = (nrows a, ncols a)"

datatype error =
  PreprocessingError | TypeError | ValueError | IndexError | KeyError
  | ZeroDivisionError | RuntimeError

definition np_divide :: "int \<Rightarrow> int \<Rightarrow> npfloat" where
  "np_divide a b =
     (if b \<noteq> 0 then Finite (real_of_int a / real_of_int b)
      else if 0 < a then PosInf else if a < 0 then NegInf else NaN)"

fun fadd :: "npfloat \<Rightarrow> npfloat \<Rightarrow> npfloat" where
  "fadd (Finite a) (Finite b) = Finite (a + b)"
| "fadd NaN y = NaN"
| "fadd x NaN = NaN"
| "fadd PosInf NegInf = NaN"
| "fadd NegInf PosInf = NaN"
| "fadd PosInf y = PosInf"
| "fadd NegInf y = NegInf"
| "fadd x PosInf = PosInf"
| "fadd x NegInf = NegInf"

definition fsum :: "npfloat list \<Rightarrow> npfloat" where
  "fsum xs = foldl fadd (Finite 0) xs"


definition indices :: "'a ndarray \<Rightarrow> (nat \<times> nat) list" where
  "indices a = concat (map (\<lambda>i. map (\<lambda>j. (i, j)) [0..<ncols a]) [0..<nrows a])"

definition np_size :: "'a ndarray \<Rightarrow> int" where
  "np_size a = int (nrows a * ncols a)"

definition np_sum_bool :: "bool ndarray \<Rightarrow> int" where
  "np_sum_bool a = int (length (filter (\<lambda>(i, j). elem a i j) (indices a)))"

definition np_invert :: "bool ndarray \<Rightarrow> bool ndarray" where
  "np_invert a = a\<lparr>elem := \<lambda>i j. \<not> elem a i j\<rparr>"

definition np_where :: "bool ndarray \<Rightarrow> 'a \<Rightarrow> 'a \<Rightarrow> 'a ndarray" where
  "np_where c x y = \<lparr>nrows = nrows c, ncols = ncols c, elem = \<lambda>i j. if elem c i j then x else y\<rparr>"


text \<open>\<open>torch.tensor(x).float()\<close>: booleans become 0 and 1, integers their value.\<close>

fun to_float :: "array \<Rightarrow> npfloat ndarray" where
  "to_float (BoolArr a) =
     \<lparr>nrows = nrows a, ncols = ncols a, elem = \<lambda>i j. if elem a i j then Finite 1 else Finite 0\<rparr>"
| "to_float (IntArr a) =
     \<lparr>nrows = nrows a, ncols = ncols a, elem = \<lambda>i j. Finite (real_of_int (elem a i j))\<rparr>"
| "to_float (FloatArr a) = a"

section \<open>The alignment refiner (align.py)\<close>

text \<open>
  The state every refiner holds after \<open>AlignmentRefiner.__init__\<close>: the two masks as float
  tensors, the pixel weight map, the lazily created optimizer and the history dictionary.
  The two leading unit axes added by \<open>[None][None]\<close> are left out.
\<close>

record ('o, 'v) AlignmentRefiner =
  reference :: "npfloat ndarray"
  to_align :: "npfloat ndarray"
  weight :: "npfloat ndarray"
  optimizer_state :: "'o option"
  history :: "string \<rightharpoonup> 'v list"

definition weight_map :: "bool ndarray \<Rightarrow> npfloat ndarray" where
  "weight_map r =
     np_where r (np_divide (np_size r) (2 * np_sum_bool r))
                (np_divide (np_size r) (2 * np_sum_bool (np_invert r)))"

definition AlignmentRefiner_init :: "array \<Rightarrow> array \<Rightarrow> error + ('o, 'v) AlignmentRefiner" where
  "AlignmentRefiner_init ref mov =
     (if dtype ref \<noteq> Bool_dtype \<or> dtype mov \<noteq> Bool_dtype then Inl PreprocessingError
      else case ref of
        BoolArr r \<Rightarrow>
          Inr \<lparr>reference = to_float ref, to_align = to_float mov, weight = weight_map r,
               optimizer_state = None, history = Map.empty\<rparr>
      | _ \<Rightarrow> Inl PreprocessingError)"

text \<open>
  The learnable parameters of the two variants, as \<open>get_params\<close> returns them: the affine
  matrix \<open>theta\<close> of the rigid refiner, or the control points and their displacements of the
  non-rigid one.
\<close>

datatype params =
  Rigid_params "real list list"
  | NonRigid_params "(real \<times> real) list" "(real \<times> real) list"

record ('o, 'v) refiner = "('o, 'v) AlignmentRefiner" +
  params :: params

definition with_params :: "('o, 'v) AlignmentRefiner \<Rightarrow> params \<Rightarrow> ('o, 'v) refiner" where
  "with_params b p =
     \<lparr>reference = reference b, to_align = to_align b, weight = weight b,
      optimizer_state = optimizer_state b, history = history b, params = p\<rparr>"

definition RigidAlignmentRefiner_init ::
  "array \<Rightarrow> array \<Rightarrow> real list list option \<Rightarrow> error + ('o, 'v) refiner" where
  "RigidAlignmentRefiner_init ref mov theta =
     (case AlignmentRefiner_init ref mov of
        Inl e \<Rightarrow> Inl e
      | Inr b \<Rightarrow>
          Inr (with_params (b\<lparr>reference := to_float ref, to_align := to_float mov\<rparr>)
                 (case theta of
                    Some t \<Rightarrow> Rigid_params t
                  | None \<Rightarrow> Rigid_params [[1, 0, 0], [0, 1, 0]])))"

text \<open>
  \<open>math.ceil(n / binsize)\<close>: Python's true division raises on a zero divisor.
\<close>

definition ceil_div :: "nat \<Rightarrow> int \<Rightarrow> error + int" where
  "ceil_div n binsize =
     (if binsize = 0 then Inl ZeroDivisionError
      else Inr \<lceil>real n / real_of_int binsize\<rceil>)"

text \<open>
  \<open>torch.linspace(start, end, steps)\<close>: a negative step count is a runtime error, a single
  step gives the start point alone.
\<close>

definition linspace :: "real \<Rightarrow> real \<Rightarrow> int \<Rightarrow> error + real list" where
  "linspace a b steps =
     (if steps < 0 then Inl RuntimeError
      else if steps = 1 then Inr [a]
      else Inr (map (\<lambda>i. a + real i * ((b - a) / real_of_int (steps - 1))) [0..<nat steps]))"

definition NonRigidAlignmentRefiner_init ::
  "array \<Rightarrow> array \<Rightarrow> int \<Rightarrow> error + ('o, 'v) refiner" where
  "NonRigidAlignmentRefiner_init ref mov binsize =
     (case AlignmentRefiner_init ref mov of
        Inl e \<Rightarrow> Inl e
      | Inr b \<Rightarrow>
          (case ceil_div (snd (shape mov)) binsize of
             Inl e \<Rightarrow> Inl e
           | Inr n1 \<Rightarrow>
               (case linspace (- 1) 1 n1 of
                  Inl e \<Rightarrow> Inl e
                | Inr l1 \<Rightarrow>
                    (case ceil_div (fst (shape mov)) binsize of
                       Inl e \<Rightarrow> Inl e
                     | Inr n0 \<Rightarrow>
                         (case linspace (- 1) 1 n0 of
                            Inl e \<Rightarrow> Inl e
                          | Inr l0 \<Rightarrow>
                              Inr (with_params b
                                     (NonRigid_params (List.product l1 l0)
                                        (map (\<lambda>_. (0, 0)) (List.product l1 l0)))))))))"

subsection \<open>Training\<close>










subsection \<open>The refinement driver\<close>


text \<open>
  The key manager \<open>SKM\<close> (module \<open>configuration\<close>) is not among the sources; its helpers
  that \<open>refine_alignment\<close> calls are modelled from the specification. The key under which
  the alignment parameters are stored, \<open>SKM.UNS_SPATIAL_ALIGNMENT_KEY\<close>, is the parameter
  \<open>key\<close> of \<open>refine_alignment\<close>.
\<close>






text \<open>
  The keyword arguments handed on to the module's constructor. A keyword the constructor
  does not take is a \<open>TypeError\<close> of the call itself.
\<close>

datatype kwargs = No_kwargs | Theta_kwarg "real list list option" | Binsize_kwarg int | Other_kwargs








section \<open>Slice alignment (three_D_reconstruction.py)\<close>

text \<open>
  Coordinates and transport plans are float64 arrays; their arithmetic is modelled over
  the exact reals. A one-dimensional array is a list.
\<close>

subsection \<open>Array operations\<close>

definition bind_err :: "error + 'a \<Rightarrow> ('a \<Rightarrow> error + 'b) \<Rightarrow> error + 'b" where
  "bind_err m f = (case m of Inl e \<Rightarrow> Inl e | Inr x \<Rightarrow> f x)"

definition sum_axis1 :: "real ndarray \<Rightarrow> real list" where
  "sum_axis1 a = map (\<lambda>i. \<Sum>j<ncols a. elem a i j) [0..<nrows a]"

definition sum_axis0 :: "real ndarray \<Rightarrow> real list" where
  "sum_axis0 a = map (\<lambda>j. \<Sum>i<nrows a. elem a i j) [0..<ncols a]"

definition transpose_T :: "real ndarray \<Rightarrow> real ndarray" where
  "transpose_T a = \<lparr>nrows = ncols a, ncols = nrows a, elem = \<lambda>i j. elem a j i\<rparr>"

text \<open>\<open>v.dot(a)\<close> for a one-dimensional \<open>v\<close>: the lengths must agree.\<close>

definition vec_dot :: "real list \<Rightarrow> real ndarray \<Rightarrow> error + real list" where
  "vec_dot v a =
     (if length v \<noteq> nrows a then Inl ValueError
      else Inr (map (\<lambda>k. \<Sum>i<nrows a. v ! i * elem a i k) [0..<ncols a]))"

text \<open>\<open>a.dot(b)\<close> for two-dimensional arrays.\<close>

definition dot :: "real ndarray \<Rightarrow> real ndarray \<Rightarrow> error + real ndarray" where
  "dot a b =
     (if ncols a \<noteq> nrows b then Inl ValueError
      else Inr \<lparr>nrows = nrows a, ncols = ncols b,
                elem = \<lambda>i j. \<Sum>k<ncols a. elem a i k * elem b k j\<rparr>)"

text \<open>\<open>a - v\<close> with the one-dimensional \<open>v\<close> broadcast over the rows of \<open>a\<close>.\<close>

definition sub_rows :: "real ndarray \<Rightarrow> real list \<Rightarrow> error + real ndarray" where
  "sub_rows a v =
     (if length v \<noteq> ncols a then Inl ValueError
      else Inr (a\<lparr>elem := \<lambda>i j. elem a i j - v ! j\<rparr>))"

subsection \<open>Slices\<close>

text \<open>
  \<open>obsm['spatial']\<close> is a data frame with the columns \<open>x\<close> and \<open>y\<close>, one row per point, and
  possibly a column \<open>z\<close>. A slice carries it together with the \<open>slice_ID\<close> column of \<open>obs\<close>,
  the derived columns \<open>new_x\<close>, \<open>new_y\<close>, \<open>new_z\<close> of \<open>obs\<close> once they are set, the expression
  matrix and the gene names.
\<close>

record frame =
  xy :: "(real \<times> real) list"
  z_col :: "real list option"

record slice =
  spatial :: frame
  slice_ID :: "string list"
  new_x :: "real list option"
  new_y :: "real list option"
  new_z :: "real list option"
  expr_X :: "real ndarray"
  var_index :: "string list"

text \<open>The values of a frame as an array of two or three columns.\<close>

definition frame_values :: "frame \<Rightarrow> real ndarray" where
  "frame_values f =
     \<lparr>nrows = length (xy f),
      ncols = (case z_col f of None \<Rightarrow> 2 | Some zs \<Rightarrow> 3),
      elem = \<lambda>i j. if j = 0 then fst (xy f ! i) else if j = 1 then snd (xy f ! i)
                    else (case z_col f of None \<Rightarrow> 0 | Some zs \<Rightarrow> zs ! i)\<rparr>"

text \<open>
  \<open>pd.DataFrame(values, columns=['x', 'y'], ...)\<close>: from a data frame it selects the two
  columns by name; from a plain array it needs exactly two columns.
\<close>

definition xy_rows :: "real ndarray \<Rightarrow> (real \<times> real) list" where
  "xy_rows a = map (\<lambda>i. (elem a i 0, elem a i 1)) [0..<nrows a]"

definition frame_of_frame :: "real ndarray \<Rightarrow> frame" where
  "frame_of_frame a = \<lparr>xy = xy_rows a, z_col = None\<rparr>"

definition frame_of_array :: "real ndarray \<Rightarrow> error + frame" where
  "frame_of_array a =
     (if ncols a \<noteq> 2 then Inl ValueError else Inr \<lparr>xy = xy_rows a, z_col = None\<rparr>)"

subsection \<open>Superposition of one adjacent pair\<close>

text \<open>
  \<open>np.linalg.svd\<close> is a parameter: a function from the matrix to the triple \<open>(U, S, Vt)\<close>.
  The transport plan, \<open>pi\<close> in the source, is called \<open>plan\<close>.
\<close>

type_synonym svd = "real ndarray \<Rightarrow> real ndarray \<times> real list \<times> real ndarray"

definition center_rows :: "real list \<Rightarrow> real ndarray \<Rightarrow> error + real ndarray" where
  "center_rows w raw = bind_err (vec_dot w raw) (sub_rows raw)"

definition cross_covariance ::
  "real ndarray \<Rightarrow> real ndarray \<Rightarrow> real ndarray \<Rightarrow> error + real ndarray" where
  "cross_covariance plan slice1Coor slice2Coor =
     bind_err (dot (transpose_T plan) slice1Coor) (dot (transpose_T slice2Coor))"

definition rotation :: "svd \<Rightarrow> real ndarray \<Rightarrow> error + real ndarray" where
  "rotation sv H = (case sv H of (U, S, Vt) \<Rightarrow> dot (transpose_T Vt) (transpose_T U))"

definition superposition ::
  "svd \<Rightarrow> real ndarray \<Rightarrow> frame \<Rightarrow> frame \<Rightarrow> error + (frame \<times> frame)" where
  "superposition sv plan rawSlice1Coor rawSlice2Coor =
     bind_err (center_rows (sum_axis1 plan) (frame_values rawSlice1Coor)) (\<lambda>slice1Coor.
     bind_err (center_rows (sum_axis0 plan) (frame_values rawSlice2Coor)) (\<lambda>slice2Coor.
     bind_err (cross_covariance plan slice1Coor slice2Coor) (\<lambda>H.
     bind_err (rotation sv H) (\<lambda>R.
     bind_err (dot R (transpose_T slice2Coor)) (\<lambda>rotated.
     bind_err (frame_of_array (transpose_T rotated)) (\<lambda>frame2.
       Inr (frame_of_frame slice1Coor, frame2)))))))"

subsection \<open>The stack of slices\<close>

text \<open>
  The two pairwise aligners end in the optimal-transport solver of the \<open>ot\<close> library and are
  parameters: each takes \<open>alpha\<close>, the two iteration caps and the two slices, and returns the
  transport plan or raises.
\<close>

datatype device = Cpu | Accelerator string

type_synonym aligner = "real \<Rightarrow> int \<Rightarrow> int \<Rightarrow> slice \<Rightarrow> slice \<Rightarrow> error + real ndarray"

fun align_pairs ::
  "(slice \<Rightarrow> slice \<Rightarrow> error + real ndarray) \<Rightarrow> slice list \<Rightarrow> nat list \<Rightarrow> error + real ndarray list" where
  "align_pairs al slicesList [] = Inr []"
| "align_pairs al slicesList (i # is) =
     (case al (slicesList ! i) (slicesList ! (i + 1)) of
        Inl e \<Rightarrow> Inl e
      | Inr plan \<Rightarrow>
          (case align_pairs al slicesList is of
             Inl e \<Rightarrow> Inl e
           | Inr plans \<Rightarrow> Inr (plan # plans)))"

fun superpose_pairs ::
  "svd \<Rightarrow> real ndarray list \<Rightarrow> nat list \<Rightarrow> slice list \<Rightarrow> error + slice list" where
  "superpose_pairs sv piList [] slicesList = Inr slicesList"
| "superpose_pairs sv piList (i # is) slicesList =
     (let slice1 = slicesList ! i; slice2 = slicesList ! (i + 1)
      in case superposition sv (piList ! i) (spatial slice1) (spatial slice2) of
           Inl e \<Rightarrow> Inl e
         | Inr (frame1, frame2) \<Rightarrow>
             superpose_pairs sv piList is
               (slicesList[i := slice1\<lparr>spatial := frame1\<rparr>, i + 1 := slice2\<lparr>spatial := frame2\<rparr>]))"

definition pairwise_passes ::
  "aligner \<Rightarrow> aligner \<Rightarrow> svd \<Rightarrow> slice list \<Rightarrow> real \<Rightarrow> int \<Rightarrow> int \<Rightarrow> device \<Rightarrow> error + slice list" where
  "pairwise_passes pairwise_align1 pairwise_align2 sv slicesList alpha numItermax numItermaxEmd dev =
     (let al = (if dev = Cpu then pairwise_align1 alpha numItermax numItermaxEmd
                else pairwise_align2 alpha numItermax numItermaxEmd)
      in case align_pairs al slicesList [0..<length slicesList - 1] of
           Inl e \<Rightarrow> Inl e
         | Inr piList \<Rightarrow> superpose_pairs sv piList [0..<length slicesList - 1] slicesList)"

subsection \<open>The z coordinate\<close>

text \<open>
  Identifiers are strings of 8-bit characters, where the class \<open>\d\<close> is the ten ASCII digits.
\<close>

definition is_digit :: "char \<Rightarrow> bool" where
  "is_digit c \<longleftrightarrow> 48 \<le> (of_char c :: nat) \<and> (of_char c :: nat) \<le> 57"

text \<open>
  \<open>re.findall(r"_S(\d+)", s)\<close>: the digit groups of the matches, found from left to right
  without overlap; the digits are matched greedily.
\<close>

function findall_S :: "string \<Rightarrow> string list" where
  "findall_S [] = []"
| "findall_S [c] = []"
| "findall_S (c # d # cs) =
     (if c = CHR ''_'' \<and> d = CHR ''S'' \<and> takeWhile is_digit cs \<noteq> []
      then takeWhile is_digit cs # findall_S (dropWhile is_digit cs)
      else findall_S (d # cs))"
  by pat_completeness auto
termination
  by (relation "measure length") (auto simp: length_dropWhile_le le_imp_less_Suc less_SucI)

text \<open>\<open>float(z)\<close> of a string of digits: its decimal value.\<close>

definition digits_value :: "string \<Rightarrow> real" where
  "digits_value ds = real (foldl (\<lambda>a c. 10 * a + (of_char c - 48)) 0 ds)"

definition assign_z :: "slice \<Rightarrow> error + slice" where
  "assign_z s =
     (case slice_ID s of
        [] \<Rightarrow> Inl IndexError
      | sid # _ \<Rightarrow>
          (case findall_S sid of
             [] \<Rightarrow> Inl IndexError
           | z # _ \<Rightarrow>
               (let n = length (xy (spatial s));
                    s1 = s\<lparr>new_x := Some (map fst (xy (spatial s)))\<rparr>;
                    s2 = s1\<lparr>new_y := Some (map snd (xy (spatial s1)))\<rparr>
                in Inr (s2\<lparr>new_z := Some (replicate n (digits_value z)),
                           spatial := (spatial s2)\<lparr>z_col := Some (replicate n (digits_value z))\<rparr>\<rparr>))))"

fun assign_z_all :: "slice list \<Rightarrow> error + slice list" where
  "assign_z_all [] = Inr []"
| "assign_z_all (s # rest) =
     (case assign_z s of
        Inl e \<Rightarrow> Inl e
      | Inr s' \<Rightarrow>
          (case assign_z_all rest of
             Inl e \<Rightarrow> Inl e
           | Inr rest' \<Rightarrow> Inr (s' # rest')))"

text \<open>
  \<open>slice_alignment\<close> without its log messages and without the optional writing of one file
  per slice, which do not change the returned slices.
\<close>

definition slice_alignment ::
  "aligner \<Rightarrow> aligner \<Rightarrow> svd \<Rightarrow> slice list \<Rightarrow> real \<Rightarrow> int \<Rightarrow> int \<Rightarrow> device \<Rightarrow> error + slice list" where
  "slice_alignment pairwise_align1 pairwise_align2 sv slicesList alpha numItermax numItermaxEmd dev =
     (case pairwise_passes pairwise_align1 pairwise_align2 sv slicesList alpha numItermax
             numItermaxEmd dev of
        Inl e \<Rightarrow> Inl e
      | Inr aligned \<Rightarrow> assign_z_all aligned)"

section \<open>Notions used to state the properties\<close>

subsection \<open>Foreground and background of a mask\<close>

text \<open>The pixel positions of the two classes of a mask, for stating sums over a class.\<close>

definition foreground :: "bool ndarray \<Rightarrow> (nat \<times> nat) list" where
  "foreground r = filter (\<lambda>(i, j). elem r i j) (indices r)"

definition background :: "bool ndarray \<Rightarrow> (nat \<times> nat) list" where
  "background r = filter (\<lambda>(i, j). \<not> elem r i j) (indices r)"

subsection \<open>The layers a call asks to transform\<close>


subsection \<open>The first section index of an identifier\<close>

text \<open>
  What it means that \<open>ds\<close> is the first \<open>_S<digits>\<close> group of the identifier
  \<open>pre @ ''_S'' @ ds @ post\<close>: \<open>ds\<close> is a non-empty run of digits that \<open>post\<close> does not
  continue, and at no position inside \<open>pre\<close> does the identifier read \<open>_S\<close> and a digit.
\<close>

fun match_here :: "string \<Rightarrow> bool" where
  "match_here (a # b # d # rest) = (a = CHR ''_'' \<and> b = CHR ''S'' \<and> is_digit d)"
| "match_here s = False"

definition first_group_at :: "string \<Rightarrow> string \<Rightarrow> string \<Rightarrow> bool" where
  "first_group_at pre ds post \<longleftrightarrow>
     ds \<noteq> [] \<and> list_all is_digit ds \<and>
     (case post of [] \<Rightarrow> True | c # rest \<Rightarrow> \<not> is_digit c) \<and>
     list_all (\<lambda>k. \<not> match_here (drop k (pre @ ''_S'' @ ds @ post))) [0..<length pre]"

subsection \<open>The superposition as the specification words it\<close>

text \<open>
  Row and column sums of the plan, the centroid of a point list under weights, the point
  list centred on a centroid, the entries of the cross-covariance
  \<open>H = centeredB\<^sup>T \<cdot> plan\<^sup>T \<cdot> centeredA\<close>, the entries of \<open>R = V \<cdot> U\<^sup>T\<close> for the factors \<open>U\<close> and
  \<open>Vt\<close> of a decomposition, and \<open>R\<close> applied to a point.
\<close>

definition row_sum :: "real ndarray \<Rightarrow> nat \<Rightarrow> real" where
  "row_sum plan i = (\<Sum>j<ncols plan. elem plan i j)"

definition col_sum :: "real ndarray \<Rightarrow> nat \<Rightarrow> real" where
  "col_sum plan j = (\<Sum>i<nrows plan. elem plan i j)"

definition weighted_centroid :: "(nat \<Rightarrow> real) \<Rightarrow> (real \<times> real) list \<Rightarrow> real \<times> real" where
  "weighted_centroid w ps =
     (\<Sum>i<length ps. w i * fst (ps ! i), \<Sum>i<length ps. w i * snd (ps ! i))"

definition centered :: "(real \<times> real) list \<Rightarrow> real \<times> real \<Rightarrow> (real \<times> real) list" where
  "centered ps c = map (\<lambda>p. (fst p - fst c, snd p - snd c)) ps"

definition coord :: "nat \<Rightarrow> real \<times> real \<Rightarrow> real" where
  "coord k p = (if k = 0 then fst p else snd p)"

definition cross_cov_entry ::
  "real ndarray \<Rightarrow> (real \<times> real) list \<Rightarrow> (real \<times> real) list \<Rightarrow> nat \<Rightarrow> nat \<Rightarrow> real" where
  "cross_cov_entry plan centeredA centeredB k l =
     (\<Sum>j<length centeredB. \<Sum>i<length centeredA.
        coord k (centeredB ! j) * elem plan i j * coord l (centeredA ! i))"

definition V_Ut_entry :: "real ndarray \<Rightarrow> real ndarray \<Rightarrow> nat \<Rightarrow> nat \<Rightarrow> real" where
  "V_Ut_entry U Vt k l = (\<Sum>m<2. elem Vt m k * elem U l m)"

definition apply_R :: "(nat \<Rightarrow> nat \<Rightarrow> real) \<Rightarrow> real \<times> real \<Rightarrow> real \<times> real" where
  "apply_R R p = (R 0 0 * fst p + R 0 1 * snd p, R 1 0 * fst p + R 1 1 * snd p)"

definition det2 :: "real ndarray \<Rightarrow> real" where
  "det2 a = elem a 0 0 * elem a 1 1 - elem a 0 1 * elem a 1 0"

text \<open>A square array of size two whose rows are orthonormal and whose columns are.\<close>

definition orthogonal2 :: "real ndarray \<Rightarrow> bool" where
  "orthogonal2 a \<longleftrightarrow>
     nrows a = 2 \<and> ncols a = 2 \<and>
     list_all (\<lambda>(i, j). (\<Sum>k<2. elem a i k * elem a j k) = (if i = j then 1 else 0) \<and>
                         (\<Sum>k<2. elem a k i * elem a k j) = (if i = j then 1 else 0))
       [(0, 0), (0, 1), (1, 0), (1, 1)]"

section \<open>Example inputs\<close>

definition example_mask :: "bool ndarray" where
  "example_mask = \<lparr>nrows = 2, ncols = 2, elem = \<lambda>i j. i = 0 \<and> j = 0\<rparr>"

definition full_mask :: "bool ndarray" where
  "full_mask = \<lparr>nrows = 2, ncols = 2, elem = \<lambda>i j. True\<rparr>"

definition example_counts :: "int ndarray" where
  "example_counts = \<lparr>nrows = 2, ncols = 2, elem = \<lambda>i j. 3\<rparr>"




text \<open>
  Two slices of three points each, the second the mirror image of the first, with the
  plan that matches equal indices, and a decomposition of their cross-covariance
  \<open>diag(2, -2/3)\<close>.
\<close>

definition example_plan :: "real ndarray" where
  "example_plan = \<lparr>nrows = 3, ncols = 3, elem = \<lambda>i j. if i = j then 1 / 3 else 0\<rparr>"

definition example_frame_A :: frame where
  "example_frame_A = \<lparr>xy = [(3, 1), (0, 2), (0, 0)], z_col = None\<rparr>"

definition example_frame_B :: frame where
  "example_frame_B = \<lparr>xy = [(3, - 1), (0, - 2), (0, 0)], z_col = None\<rparr>"

definition example_H :: "real ndarray" where
  "example_H =
     \<lparr>nrows = 2, ncols = 2,
      elem = \<lambda>i j. if i = 0 \<and> j = 0 then 2 else if i = 1 \<and> j = 1 then - (2 / 3) else 0\<rparr>"

definition example_U :: "real ndarray" where
  "example_U =
     \<lparr>nrows = 2, ncols = 2,
      elem = \<lambda>i j. if i = 0 \<and> j = 0 then 1 else if i = 1 \<and> j = 1 then - 1 else 0\<rparr>"

definition example_Vt :: "real ndarray" where
  "example_Vt = \<lparr>nrows = 2, ncols = 2, elem = \<lambda>i j. if i = j then 1 else 0\<rparr>"

definition example_svd :: svd where
  "example_svd H = (example_U, [2, 2 / 3], example_Vt)"

definition example_slice_A :: slice where
  "example_slice_A =
     \<lparr>spatial = example_frame_A, slice_ID = [''E16_S2_a'', ''E16_S2_a'', ''E16_S2_a''],
      new_x = None, new_y = None, new_z = None, expr_X = example_plan, var_index = []\<rparr>"

definition example_slice_B :: slice where
  "example_slice_B =
     \<lparr>spatial = example_frame_B, slice_ID = [''E16_S10'', ''E16_S10'', ''E16_S10''],
      new_x = None, new_y = None, new_z = None, expr_X = example_plan, var_index = []\<rparr>"

definition example_aligner :: aligner where
  "example_aligner alpha numItermax numItermaxEmd slice1 slice2 = Inr example_plan"

section \<open>Properties of the refiner's construction\<close>


lemma set_indices: "set (indices a) = {(i, j). i < nrows a \<and> j < ncols a}"
  by (auto simp: indices_def)

lemma length_indices: "length (indices a) = nrows a * ncols a"
  by (simp add: indices_def length_concat comp_def sum_list_triv)

lemma np_sum_bool_complement:
  "np_sum_bool a + np_sum_bool (np_invert a) = np_size a"
proof -
  have "length (filter (\<lambda>(i, j). elem a i j) (indices a))
        + length (filter (\<lambda>(i, j). \<not> elem a i j) (indices a)) = length (indices a)"
    using sum_length_filter_compl [of "\<lambda>(i, j). elem a i j" "indices a"]
    by (simp add: split_def)
  moreover have "indices (np_invert a) = indices a"
    by (simp add: indices_def np_invert_def)
  ultimately show ?thesis
    by (simp add: np_sum_bool_def np_size_def np_invert_def length_indices case_prod_beta
        flip: of_nat_add)
qed

lemma np_sum_bool_pos:
  assumes "i < nrows a" "j < ncols a" "elem a i j"
  shows "0 < np_sum_bool a"
proof -
  have "(i, j) \<in> set (filter (\<lambda>(i, j). elem a i j) (indices a))"
    using assms by (simp add: set_indices)
  then have "filter (\<lambda>(i, j). elem a i j) (indices a) \<noteq> []"
    by (metis empty_iff empty_set)
  then show ?thesis by (simp add: np_sum_bool_def)
qed

lemma foldl_fadd_const:
  "foldl fadd (Finite s) (map (\<lambda>_. Finite c) xs) = Finite (s + real (length xs) * c)"
  by (induction xs arbitrary: s) (simp_all add: algebra_simps)

lemma fsum_const: "fsum (map (\<lambda>_. Finite c) xs) = Finite (real (length xs) * c)"
  by (simp add: fsum_def foldl_fadd_const)

lemma np_sum_bool_all:
  assumes "\<forall>i<nrows a. \<forall>j<ncols a. elem a i j"
  shows "np_sum_bool a = np_size a" "np_sum_bool (np_invert a) = 0"
proof -
  have "filter (\<lambda>(i, j). elem a i j) (indices a) = indices a"
    using assms by (auto simp: set_indices intro!: filter_True)
  then show "np_sum_bool a = np_size a"
    by (simp add: np_sum_bool_def np_size_def length_indices)
  then show "np_sum_bool (np_invert a) = 0"
    using np_sum_bool_complement [of a] by simp
qed

lemma np_sum_bool_none:
  assumes "\<forall>i<nrows a. \<forall>j<ncols a. \<not> elem a i j"
  shows "np_sum_bool a = 0" "np_sum_bool (np_invert a) = np_size a"
proof -
  have "filter (\<lambda>(i, j). elem a i j) (indices a) = []"
    using assms by (auto simp: set_indices filter_empty_conv)
  then show "np_sum_bool a = 0"
    by (simp add: np_sum_bool_def)
  then show "np_sum_bool (np_invert a) = np_size a"
    using np_sum_bool_complement [of a] by simp
qed

lemma np_size_pos: "i < nrows a \<Longrightarrow> j < ncols a \<Longrightarrow> 0 < np_size a"
  by (simp add: np_size_def)

lemma AlignmentRefiner_init_bool:
  "AlignmentRefiner_init (BoolArr r) (BoolArr m) =
     Inr \<lparr>reference = to_float (BoolArr r), to_align = to_float (BoolArr m),
          weight = weight_map r, optimizer_state = None, history = Map.empty\<rparr>"
  by (simp add: AlignmentRefiner_init_def)

lemma weight_map_elem:
  "elem (weight_map r) i j =
     (if elem r i j then np_divide (np_size r) (2 * np_sum_bool r)
      else np_divide (np_size r) (2 * np_sum_bool (np_invert r)))"
  by (simp add: weight_map_def np_where_def)

lemma fsum_weights:
  assumes "\<forall>p \<in> set ps. elem w (fst p) (snd p) = Finite c"
  shows "fsum (map (\<lambda>(i, j). elem w i j) ps) = Finite (real (length ps) * c)"
proof -
  have eq: "map (\<lambda>(i, j). elem w i j) ps = map (\<lambda>_. Finite c) ps"
    using assms by (auto simp: split_def)
  show ?thesis by (simp only: eq fsum_const)
qed

text \<open>
  Claim C4. For boolean masks the constructor succeeds and its weight map gives every
  foreground pixel the value size / (2 * foreground count) and every background pixel the
  value size / (2 * background count); when both classes occur, the weights of the
  foreground pixels and those of the background pixels each add up to size / 2.
\<close>

theorem weight_map_class_balanced:
  fixes r m :: "bool ndarray"
  shows "\<exists>a :: ('o, 'v) AlignmentRefiner.
     AlignmentRefiner_init (BoolArr r) (BoolArr m) = Inr a \<and>
     (\<forall>i<nrows r. \<forall>j<ncols r.
        elem (weight a) i j =
          (if elem r i j
           then Finite (real_of_int (np_size r) / (2 * real_of_int (np_sum_bool r)))
           else Finite (real_of_int (np_size r) / (2 * real_of_int (np_sum_bool (np_invert r)))))) \<and>
     (foreground r \<noteq> [] \<and> background r \<noteq> [] \<longrightarrow>
        fsum (map (\<lambda>(i, j). elem (weight a) i j) (foreground r)) = Finite (real_of_int (np_size r) / 2) \<and>
        fsum (map (\<lambda>(i, j). elem (weight a) i j) (background r)) = Finite (real_of_int (np_size r) / 2))"
proof -
  let ?a = "\<lparr>reference = to_float (BoolArr r), to_align = to_float (BoolArr m),
          weight = weight_map r, optimizer_state = None, history = Map.empty\<rparr> :: ('o, 'v) AlignmentRefiner"
  have fgw: "elem (weight_map r) i j = Finite (real_of_int (np_size r) / (2 * real_of_int (np_sum_bool r)))"
    if "i < nrows r" "j < ncols r" "elem r i j" for i j
    using np_sum_bool_pos [OF that] that by (simp add: weight_map_elem np_divide_def)
  have bgw: "elem (weight_map r) i j = Finite (real_of_int (np_size r) / (2 * real_of_int (np_sum_bool (np_invert r))))"
    if "i < nrows r" "j < ncols r" "\<not> elem r i j" for i j
    using np_sum_bool_pos [of i "np_invert r" j] that
    by (simp add: weight_map_elem np_divide_def np_invert_def)
  have fgs: "fsum (map (\<lambda>(i, j). elem (weight_map r) i j) (foreground r)) = Finite (real_of_int (np_size r) / 2)"
    if "foreground r \<noteq> []"
  proof -
    have "fsum (map (\<lambda>(i, j). elem (weight_map r) i j) (foreground r))
        = Finite (real (length (foreground r)) * (real_of_int (np_size r) / (2 * real_of_int (np_sum_bool r))))"
      by (rule fsum_weights) (auto simp: foreground_def set_indices fgw)
    moreover have "real_of_int (np_sum_bool r) = real (length (foreground r))"
      by (simp add: np_sum_bool_def foreground_def)
    moreover have "length (foreground r) \<noteq> 0" using that by simp
    ultimately show ?thesis by simp
  qed
  have bgs: "fsum (map (\<lambda>(i, j). elem (weight_map r) i j) (background r)) = Finite (real_of_int (np_size r) / 2)"
    if "background r \<noteq> []"
  proof -
    have "fsum (map (\<lambda>(i, j). elem (weight_map r) i j) (background r))
        = Finite (real (length (background r)) * (real_of_int (np_size r) / (2 * real_of_int (np_sum_bool (np_invert r)))))"
      by (rule fsum_weights) (auto simp: background_def set_indices bgw)
    moreover have "real_of_int (np_sum_bool (np_invert r)) = real (length (background r))"
      by (simp add: np_sum_bool_def background_def np_invert_def indices_def)
    moreover have "length (background r) \<noteq> 0" using that by simp
    ultimately show ?thesis by simp
  qed
  have "AlignmentRefiner_init (BoolArr r) (BoolArr m) = Inr ?a"
    by (rule AlignmentRefiner_init_bool)
  moreover have "\<forall>i<nrows r. \<forall>j<ncols r.
        elem (weight ?a) i j =
          (if elem r i j
           then Finite (real_of_int (np_size r) / (2 * real_of_int (np_sum_bool r)))
           else Finite (real_of_int (np_size r) / (2 * real_of_int (np_sum_bool (np_invert r)))))"
    using fgw bgw by simp
  ultimately show ?thesis using fgs bgs by auto
qed

lemma example_mask_indices: "indices example_mask = [(0,0),(0,1),(1,0),(1,1)]"
  by (simp add: indices_def example_mask_def upt_rec numeral_2_eq_2)

lemma example_mask_counts:
  "np_size example_mask = 4" "np_sum_bool example_mask = 1" "np_sum_bool (np_invert example_mask) = 3"
  "foreground example_mask = [(0,0)]" "background example_mask = [(0,1),(1,0),(1,1)]"
  "nrows example_mask = 2" "ncols example_mask = 2"
  "elem example_mask 0 0" "\<not> elem example_mask 1 1"
  using example_mask_indices
  by (simp_all add: np_size_def np_sum_bool_def np_invert_def foreground_def background_def indices_def)
     (simp_all add: example_mask_def)

theorem weight_map_class_balanced_witness:
  "\<exists>a :: (unit, real) AlignmentRefiner.
     AlignmentRefiner_init (BoolArr example_mask) (BoolArr example_mask) = Inr a \<and>
     elem (weight a) 0 0 = Finite 2 \<and> elem (weight a) 1 1 = Finite (2 / 3) \<and>
     fsum (map (\<lambda>(i, j). elem (weight a) i j) (foreground example_mask)) = Finite 2 \<and>
     fsum (map (\<lambda>(i, j). elem (weight a) i j) (background example_mask)) = Finite 2"
proof -
  obtain a :: "(unit, real) AlignmentRefiner" where
    a: "AlignmentRefiner_init (BoolArr example_mask) (BoolArr example_mask) = Inr a"
    and w: "\<forall>i<nrows example_mask. \<forall>j<ncols example_mask.
        elem (weight a) i j =
          (if elem example_mask i j
           then Finite (real_of_int (np_size example_mask) / (2 * real_of_int (np_sum_bool example_mask)))
           else Finite (real_of_int (np_size example_mask) / (2 * real_of_int (np_sum_bool (np_invert example_mask)))))"
    and s: "foreground example_mask \<noteq> [] \<and> background example_mask \<noteq> [] \<longrightarrow>
        fsum (map (\<lambda>(i, j). elem (weight a) i j) (foreground example_mask)) = Finite (real_of_int (np_size example_mask) / 2) \<and>
        fsum (map (\<lambda>(i, j). elem (weight a) i j) (background example_mask)) = Finite (real_of_int (np_size example_mask) / 2)"
    using weight_map_class_balanced [of example_mask example_mask] by blast
  have "elem (weight a) 0 0 = Finite 2"
    using w [rule_format, of 0 0] by (simp add: example_mask_counts)
  moreover have "elem (weight a) 1 1 = Finite (2 / 3)"
    using w [rule_format, of 1 1] by (simp add: example_mask_counts) (simp add: example_mask_def)
  moreover have "fsum (map (\<lambda>(i, j). elem (weight a) i j) (foreground example_mask)) = Finite 2"
    "fsum (map (\<lambda>(i, j). elem (weight a) i j) (background example_mask)) = Finite 2"
    using s by (simp_all add: example_mask_counts)
  ultimately show ?thesis using a by blast
qed

text \<open>
  Claim C10. For a reference mask of a single class the constructor does not raise and
  every entry of the weight map is 1/2: the count of the other class is zero, the weight
  expression of that class is a division by zero (an infinity for a mask with pixels),
  and no pixel selects it.
\<close>

theorem single_class_weight_map_is_half:
  fixes r m :: "bool ndarray"
  assumes "(\<forall>i<nrows r. \<forall>j<ncols r. elem r i j) \<or> (\<forall>i<nrows r. \<forall>j<ncols r. \<not> elem r i j)"
  shows "\<exists>a :: ('o, 'v) AlignmentRefiner.
     AlignmentRefiner_init (BoolArr r) (BoolArr m) = Inr a \<and>
     (\<forall>i<nrows r. \<forall>j<ncols r. elem (weight a) i j = Finite (1 / 2)) \<and>
     (np_sum_bool r = 0 \<or> np_sum_bool (np_invert r) = 0) \<and>
     (0 < np_size r \<longrightarrow> np_divide (np_size r) (2 * 0) = PosInf)"
proof -
  let ?a = "\<lparr>reference = to_float (BoolArr r), to_align = to_float (BoolArr m),
          weight = weight_map r, optimizer_state = None, history = Map.empty\<rparr> :: ('o, 'v) AlignmentRefiner"
  have init: "AlignmentRefiner_init (BoolArr r) (BoolArr m) = Inr ?a"
    by (rule AlignmentRefiner_init_bool)
  have half: "np_divide (np_size r) (2 * np_size r) = Finite (1 / 2)" if "0 < np_size r"
    using that by (simp add: np_divide_def)
  have inf: "0 < np_size r \<longrightarrow> np_divide (np_size r) (2 * 0) = PosInf"
    by (simp add: np_divide_def)
  from assms show ?thesis
  proof
    assume fg: "\<forall>i<nrows r. \<forall>j<ncols r. elem r i j"
    have "elem (weight_map r) i j = Finite (1 / 2)" if "i < nrows r" "j < ncols r" for i j
      using that fg half [OF np_size_pos [OF that]]
      by (simp add: weight_map_elem np_sum_bool_all(1) [OF fg])
    then show ?thesis
      using init inf np_sum_bool_all(2) [OF fg] by auto
  next
    assume bg: "\<forall>i<nrows r. \<forall>j<ncols r. \<not> elem r i j"
    have "elem (weight_map r) i j = Finite (1 / 2)" if "i < nrows r" "j < ncols r" for i j
      using that bg half [OF np_size_pos [OF that]]
      by (simp add: weight_map_elem np_sum_bool_none(2) [OF bg])
    then show ?thesis
      using init inf np_sum_bool_none(1) [OF bg] by auto
  qed
qed

theorem single_class_weight_map_is_half_witness:
  "\<exists>a :: (unit, real) AlignmentRefiner.
     AlignmentRefiner_init (BoolArr full_mask) (BoolArr example_mask) = Inr a \<and>
     elem (weight a) 0 0 = Finite (1 / 2) \<and> elem (weight a) 1 0 = Finite (1 / 2) \<and>
     np_sum_bool (np_invert full_mask) = 0 \<and>
     np_divide (np_size full_mask) (2 * np_sum_bool (np_invert full_mask)) = PosInf"
proof -
  have single: "(\<forall>i<nrows full_mask. \<forall>j<ncols full_mask. elem full_mask i j)
      \<or> (\<forall>i<nrows full_mask. \<forall>j<ncols full_mask. \<not> elem full_mask i j)"
    by (simp add: full_mask_def)
  have dims: "nrows full_mask = 2" "ncols full_mask = 2" "np_size full_mask = 4" "elem full_mask 0 0"
    by (simp_all add: full_mask_def np_size_def)
  obtain a :: "(unit, real) AlignmentRefiner" where
    a: "AlignmentRefiner_init (BoolArr full_mask) (BoolArr example_mask) = Inr a"
    and w: "\<forall>i<nrows full_mask. \<forall>j<ncols full_mask. elem (weight a) i j = Finite (1 / 2)"
    and z: "np_sum_bool full_mask = 0 \<or> np_sum_bool (np_invert full_mask) = 0"
    and d: "0 < np_size full_mask \<longrightarrow> np_divide (np_size full_mask) (2 * 0) = PosInf"
    using single_class_weight_map_is_half [OF single, of example_mask] by blast
  have "np_sum_bool full_mask \<noteq> 0"
    using np_sum_bool_pos [of 0 full_mask 0] by (simp add: dims)
  then have z': "np_sum_bool (np_invert full_mask) = 0" using z by simp
  have "elem (weight a) 0 0 = Finite (1 / 2)" "elem (weight a) 1 0 = Finite (1 / 2)"
    using w by (simp_all add: dims)
  moreover have "np_divide (np_size full_mask) (2 * np_sum_bool (np_invert full_mask)) = PosInf"
    using d z' by (simp add: dims)
  ultimately show ?thesis using a z' by blast
qed

lemma AlignmentRefiner_init_error_iff:
  "AlignmentRefiner_init ref mov = Inl PreprocessingError
      \<longleftrightarrow> dtype ref \<noteq> Bool_dtype \<or> dtype mov \<noteq> Bool_dtype"
  by (cases ref; cases mov) (simp_all add: AlignmentRefiner_init_def)

text \<open>
  Claim C6. Each of the three constructors raises \<open>PreprocessingError\<close> exactly when one
  of the two masks is not boolean; the result is then the error alone, with no refiner
  state, whatever the other arguments are.
\<close>

theorem construction_rejects_non_boolean_masks:
  "((AlignmentRefiner_init ref mov :: error + ('o, 'v) AlignmentRefiner) = Inl PreprocessingError
      \<longleftrightarrow> dtype ref \<noteq> Bool_dtype \<or> dtype mov \<noteq> Bool_dtype) \<and>
   ((RigidAlignmentRefiner_init ref mov theta :: error + ('o, 'v) refiner) = Inl PreprocessingError
      \<longleftrightarrow> dtype ref \<noteq> Bool_dtype \<or> dtype mov \<noteq> Bool_dtype) \<and>
   ((NonRigidAlignmentRefiner_init ref mov binsize :: error + ('o, 'v) refiner) = Inl PreprocessingError
      \<longleftrightarrow> dtype ref \<noteq> Bool_dtype \<or> dtype mov \<noteq> Bool_dtype)"
proof -
  note base = AlignmentRefiner_init_error_iff [of ref mov]
  have rigid: "((RigidAlignmentRefiner_init ref mov theta :: error + ('o, 'v) refiner) = Inl PreprocessingError
      \<longleftrightarrow> dtype ref \<noteq> Bool_dtype \<or> dtype mov \<noteq> Bool_dtype)"
    using AlignmentRefiner_init_error_iff [of ref mov, where ?'a = 'o and ?'b = 'v]
    by (auto simp: RigidAlignmentRefiner_init_def split: sum.splits)
  have nonrigid: "((NonRigidAlignmentRefiner_init ref mov binsize :: error + ('o, 'v) refiner) = Inl PreprocessingError
      \<longleftrightarrow> dtype ref \<noteq> Bool_dtype \<or> dtype mov \<noteq> Bool_dtype)"
    using AlignmentRefiner_init_error_iff [of ref mov, where ?'a = 'o and ?'b = 'v]
    by (auto simp: NonRigidAlignmentRefiner_init_def ceil_div_def linspace_def
          split: sum.splits if_splits)
  show ?thesis using base rigid nonrigid by blast
qed

theorem construction_rejects_non_boolean_masks_witness:
  "(AlignmentRefiner_init (IntArr example_counts) (BoolArr example_mask)
      :: error + (unit, real) AlignmentRefiner) = Inl PreprocessingError \<and>
   (RigidAlignmentRefiner_init (BoolArr example_mask) (IntArr example_counts) None
      :: error + (unit, real) refiner) = Inl PreprocessingError \<and>
   (NonRigidAlignmentRefiner_init (IntArr example_counts) (BoolArr example_mask) 0
      :: error + (unit, real) refiner) = Inl PreprocessingError \<and>
   (NonRigidAlignmentRefiner_init (BoolArr example_mask) (BoolArr example_mask) 0
      :: error + (unit, real) refiner) \<noteq> Inl PreprocessingError"
  using construction_rejects_non_boolean_masks
          [of "IntArr example_counts" "BoolArr example_mask" None 0,
           where ?'o = unit and ?'v = real]
        construction_rejects_non_boolean_masks
          [of "BoolArr example_mask" "IntArr example_counts" None 0,
           where ?'o = unit and ?'v = real]
        construction_rejects_non_boolean_masks
          [of "BoolArr example_mask" "BoolArr example_mask" None 0,
           where ?'o = unit and ?'v = real]
  by simp

section \<open>The training loop\<close>










section \<open>The refinement driver\<close>








section \<open>The z coordinate of the slices\<close>


lemma match_here_iff:
  "match_here (c # d # cs) \<longleftrightarrow> c = CHR ''_'' \<and> d = CHR ''S'' \<and> takeWhile is_digit cs \<noteq> []"
  by (cases cs) auto

lemma findall_S_skip: "\<not> match_here (c # s) \<Longrightarrow> findall_S (c # s) = findall_S s"
proof (cases s)
  case Nil
  then show ?thesis by simp
next
  case (Cons d cs)
  assume "\<not> match_here (c # s)"
  then show ?thesis unfolding Cons match_here_iff by auto
qed

lemma takeWhile_digits:
  assumes "list_all is_digit ds" "case post of [] \<Rightarrow> True | c # rest \<Rightarrow> \<not> is_digit c"
  shows "takeWhile is_digit (ds @ post) = ds" "dropWhile is_digit (ds @ post) = post"
  using assms by (auto simp: list_all_iff takeWhile_append2 dropWhile_append2 split: list.splits)

lemma findall_S_match:
  assumes "ds \<noteq> []" "list_all is_digit ds" "case post of [] \<Rightarrow> True | c # rest \<Rightarrow> \<not> is_digit c"
  shows "findall_S (''_S'' @ ds @ post) = ds # findall_S post"
  using assms takeWhile_digits [OF assms(2,3)] by simp

lemma list_all_upt_Suc:
  "list_all P [0..<Suc n] \<longleftrightarrow> P 0 \<and> list_all (\<lambda>k. P (Suc k)) [0..<n]"
proof -
  have "[0..<Suc n] = 0 # map Suc [0..<n]"
    by (simp only: map_Suc_upt upt_conv_Cons [of 0 "Suc n"] zero_less_Suc)
  then show ?thesis by (simp only: list.pred_inject list.pred_map comp_def)
qed

lemma first_group_at_Cons:
  "first_group_at (c # pre) ds post \<longleftrightarrow>
     \<not> match_here (c # pre @ ''_S'' @ ds @ post) \<and> first_group_at pre ds post"
  unfolding first_group_at_def length_Cons list_all_upt_Suc by auto

lemma findall_S_first_group:
  assumes "first_group_at pre ds post"
  shows "findall_S (pre @ ''_S'' @ ds @ post) = ds # findall_S post"
  using assms
proof (induction pre)
  case Nil
  then show ?case
    using findall_S_match [of ds post] by (simp add: first_group_at_def)
next
  case (Cons c pre)
  from Cons.prems have here: "\<not> match_here (c # pre @ ''_S'' @ ds @ post)"
    and rest: "first_group_at pre ds post"
    by (simp_all add: first_group_at_Cons)
  from Cons.IH [OF rest] findall_S_skip [OF here] show ?case by simp
qed

lemma first_group_of_findall_S:
  "findall_S s = d # rest \<Longrightarrow> \<exists>pre post. s = pre @ ''_S'' @ d @ post \<and> first_group_at pre d post"
proof (induction s rule: findall_S.induct)
  case 1
  then show ?case by simp
next
  case (2 c)
  then show ?case by simp
next
  case (3 c e cs)
  show ?case
  proof (cases "c = CHR ''_'' \<and> e = CHR ''S'' \<and> takeWhile is_digit cs \<noteq> []")
    case True
    with "3.prems" have d: "d = takeWhile is_digit cs" by simp
    have "c # e # cs = [] @ ''_S'' @ d @ dropWhile is_digit cs"
      using True d by simp
    moreover have "first_group_at [] d (dropWhile is_digit cs)"
    proof -
      have "list_all is_digit d"
        using d by (auto simp: list_all_iff dest: set_takeWhileD)
      moreover have "case dropWhile is_digit cs of [] \<Rightarrow> True | c # rest \<Rightarrow> \<not> is_digit c"
      proof (cases "dropWhile is_digit cs")
        case Nil
        show ?thesis unfolding Nil by simp
      next
        case (Cons x xs)
        then have "dropWhile is_digit cs \<noteq> []" by simp
        then have "\<not> is_digit (hd (dropWhile is_digit cs))"
          by (rule hd_dropWhile)
        then show ?thesis unfolding Cons by simp
      qed
      ultimately show ?thesis using True d by (simp add: first_group_at_def)
    qed
    ultimately show ?thesis by blast
  next
    case False
    with "3.prems" have "findall_S (e # cs) = d # rest" by auto
    from "3.IH"(2) [OF False this] obtain pre post where
      s: "e # cs = pre @ ''_S'' @ d @ post" and f: "first_group_at pre d post"
      by blast
    have here: "\<not> match_here (c # e # cs)"
      using False match_here_iff by blast
    have "c # e # cs = (c # pre) @ ''_S'' @ d @ post" using s by simp
    moreover have "first_group_at (c # pre) d post"
      using f here s by (simp add: first_group_at_Cons)
    ultimately show ?thesis by blast
  qed
qed

lemma assign_z_Inr:
  assumes "assign_z s = Inr s'"
  shows "\<exists>sid rest ds others.
           slice_ID s = sid # rest \<and> findall_S sid = ds # others \<and>
           z_col (spatial s') = Some (replicate (length (xy (spatial s))) (digits_value ds)) \<and>
           new_z s' = Some (replicate (length (xy (spatial s))) (digits_value ds)) \<and>
           xy (spatial s') = xy (spatial s) \<and>
           new_x s' = Some (map fst (xy (spatial s))) \<and>
           new_y s' = Some (map snd (xy (spatial s)))"
  using assms by (auto simp: assign_z_def Let_def split: list.splits)

lemma assign_z_total:
  assumes "slice_ID s = sid # rest" "findall_S sid = ds # others"
  shows "\<exists>s'. assign_z s = Inr s'"
  using assms by (simp add: assign_z_def Let_def)

lemma assign_z_all_Inr:
  "assign_z_all sl = Inr out \<Longrightarrow>
     length out = length sl \<and> (\<forall>k<length sl. assign_z (sl ! k) = Inr (out ! k))"
proof (induction sl arbitrary: out)
  case Nil
  then show ?case by simp
next
  case (Cons s rest)
  from Cons.prems obtain s' rest' where
    a: "assign_z s = Inr s'" and r: "assign_z_all rest = Inr rest'" and o: "out = s' # rest'"
    by (auto split: sum.splits)
  from Cons.IH [OF r] a o show ?case
    by (auto simp: nth_Cons split: nat.splits)
qed

lemma assign_z_all_total:
  "\<forall>s \<in> set sl. \<exists>s'. assign_z s = Inr s' \<Longrightarrow> \<exists>out. assign_z_all sl = Inr out"
proof (induction sl)
  case Nil
  then show ?case by simp
next
  case (Cons s rest)
  then obtain s' rest' where "assign_z s = Inr s'" "assign_z_all rest = Inr rest'"
    by auto
  then show ?case by simp
qed

lemma map_update_same: "(map f xs)[i := f (xs ! i)] = map f xs"
  by (metis list_update_id map_update)

lemma superpose_pairs_keeps_ids:
  "superpose_pairs sv piList js sl = Inr out \<Longrightarrow>
     length out = length sl \<and> map slice_ID out = map slice_ID sl"
proof (induction js arbitrary: sl)
  case Nil
  then show ?case by simp
next
  case (Cons i js)
  let ?s1 = "sl ! i" and ?s2 = "sl ! (i + 1)"
  from Cons.prems obtain f1 f2 where
    t: "superpose_pairs sv piList js
          (sl[i := ?s1\<lparr>spatial := f1\<rparr>, i + 1 := ?s2\<lparr>spatial := f2\<rparr>]) = Inr out"
    by (auto simp: Let_def split: sum.splits)
  have "map slice_ID (sl[i := ?s1\<lparr>spatial := f1\<rparr>, i + 1 := ?s2\<lparr>spatial := f2\<rparr>])
        = ((map slice_ID sl)[i := slice_ID (sl ! i)])[i + 1 := slice_ID (sl ! (i + 1))]"
    by (simp add: map_update)
  also have "\<dots> = map slice_ID sl"
    by (simp only: map_update_same)
  finally show ?case using Cons.IH [OF t] by simp
qed

lemma pairwise_passes_keeps_ids:
  assumes "pairwise_passes a1 a2 sv sl alpha n1 n2 dev = Inr mid"
  shows "length mid = length sl" "map slice_ID mid = map slice_ID sl"
  using assms superpose_pairs_keeps_ids
  by (auto simp: pairwise_passes_def Let_def split: sum.splits)

text \<open>
  Claim C9. When \<open>slice_alignment\<close> returns, the pairwise passes have returned a list of
  the same length, and every slice of the result, the first and the last included, has
  as its \<open>z\<close> column and as \<open>new_z\<close> the decimal value of the first \<open>_S<digits>\<close> group
  of its identifier, in every row; its \<open>x\<close> and \<open>y\<close> coordinates are those the pairwise
  passes left, and \<open>new_x\<close>, \<open>new_y\<close> repeat them. The call returns whenever the pairwise
  passes do and every identifier has such a group.
\<close>

theorem slice_alignment_assigns_z_from_identifier:
  "(slice_alignment a1 a2 sv sl alpha n1 n2 dev = Inr out \<longrightarrow>
     (\<exists>mid. pairwise_passes a1 a2 sv sl alpha n1 n2 dev = Inr mid \<and>
        length mid = length sl \<and> length out = length sl \<and>
        (\<forall>k<length sl. \<exists>sid rest pre ds post.
            slice_ID (sl ! k) = sid # rest \<and> sid = pre @ ''_S'' @ ds @ post \<and>
            first_group_at pre ds post \<and>
            z_col (spatial (out ! k)) =
              Some (replicate (length (xy (spatial (mid ! k)))) (digits_value ds)) \<and>
            new_z (out ! k) =
              Some (replicate (length (xy (spatial (mid ! k)))) (digits_value ds)) \<and>
            xy (spatial (out ! k)) = xy (spatial (mid ! k)) \<and>
            new_x (out ! k) = Some (map fst (xy (spatial (mid ! k)))) \<and>
            new_y (out ! k) = Some (map snd (xy (spatial (mid ! k))))))) \<and>
   (pairwise_passes a1 a2 sv sl alpha n1 n2 dev = Inr mid' \<and>
    (\<forall>s \<in> set sl. \<exists>sid rest pre ds post.
        slice_ID s = sid # rest \<and> sid = pre @ ''_S'' @ ds @ post \<and> first_group_at pre ds post) \<longrightarrow>
     (\<exists>out'. slice_alignment a1 a2 sv sl alpha n1 n2 dev = Inr out'))"
proof (intro conjI impI)
  assume sa: "slice_alignment a1 a2 sv sl alpha n1 n2 dev = Inr out"
  then obtain mid where
    p: "pairwise_passes a1 a2 sv sl alpha n1 n2 dev = Inr mid" and z: "assign_z_all mid = Inr out"
    by (auto simp: slice_alignment_def split: sum.splits)
  note ids = pairwise_passes_keeps_ids [OF p]
  from assign_z_all_Inr [OF z] have
    len: "length out = length mid" and each: "\<forall>k<length mid. assign_z (mid ! k) = Inr (out ! k)"
    by simp_all
  have "\<exists>sid rest pre ds post.
            slice_ID (sl ! k) = sid # rest \<and> sid = pre @ ''_S'' @ ds @ post \<and>
            first_group_at pre ds post \<and>
            z_col (spatial (out ! k)) =
              Some (replicate (length (xy (spatial (mid ! k)))) (digits_value ds)) \<and>
            new_z (out ! k) =
              Some (replicate (length (xy (spatial (mid ! k)))) (digits_value ds)) \<and>
            xy (spatial (out ! k)) = xy (spatial (mid ! k)) \<and>
            new_x (out ! k) = Some (map fst (xy (spatial (mid ! k)))) \<and>
            new_y (out ! k) = Some (map snd (xy (spatial (mid ! k))))"
    if k: "k < length sl" for k
  proof -
    have km: "k < length mid" using k ids(1) by simp
    have id: "slice_ID (mid ! k) = slice_ID (sl ! k)"
      using ids(2) k km by (metis nth_map)
    from each km have "assign_z (mid ! k) = Inr (out ! k)" by simp
    from assign_z_Inr [OF this] obtain sid rest ds others where
      a: "slice_ID (mid ! k) = sid # rest" "findall_S sid = ds # others"
         "z_col (spatial (out ! k)) =
              Some (replicate (length (xy (spatial (mid ! k)))) (digits_value ds))"
         "new_z (out ! k) =
              Some (replicate (length (xy (spatial (mid ! k)))) (digits_value ds))"
         "xy (spatial (out ! k)) = xy (spatial (mid ! k))"
         "new_x (out ! k) = Some (map fst (xy (spatial (mid ! k))))"
         "new_y (out ! k) = Some (map snd (xy (spatial (mid ! k))))"
      by blast
    from first_group_of_findall_S [OF a(2)] obtain pre post where
      "sid = pre @ ''_S'' @ ds @ post" "first_group_at pre ds post"
      by blast
    with a id show ?thesis by metis
  qed
  with p ids(1) len show "\<exists>mid. pairwise_passes a1 a2 sv sl alpha n1 n2 dev = Inr mid \<and>
        length mid = length sl \<and> length out = length sl \<and>
        (\<forall>k<length sl. \<exists>sid rest pre ds post.
            slice_ID (sl ! k) = sid # rest \<and> sid = pre @ ''_S'' @ ds @ post \<and>
            first_group_at pre ds post \<and>
            z_col (spatial (out ! k)) =
              Some (replicate (length (xy (spatial (mid ! k)))) (digits_value ds)) \<and>
            new_z (out ! k) =
              Some (replicate (length (xy (spatial (mid ! k)))) (digits_value ds)) \<and>
            xy (spatial (out ! k)) = xy (spatial (mid ! k)) \<and>
            new_x (out ! k) = Some (map fst (xy (spatial (mid ! k)))) \<and>
            new_y (out ! k) = Some (map snd (xy (spatial (mid ! k)))))"
    by auto
next
  assume a: "pairwise_passes a1 a2 sv sl alpha n1 n2 dev = Inr mid' \<and>
    (\<forall>s \<in> set sl. \<exists>sid rest pre ds post.
        slice_ID s = sid # rest \<and> sid = pre @ ''_S'' @ ds @ post \<and> first_group_at pre ds post)"
  then have p: "pairwise_passes a1 a2 sv sl alpha n1 n2 dev = Inr mid'" by simp
  note ids = pairwise_passes_keeps_ids [OF p]
  have "\<exists>s'. assign_z s = Inr s'" if "s \<in> set mid'" for s
  proof -
    from that have "slice_ID s \<in> set (map slice_ID sl)"
      using ids(2) by (metis image_eqI set_map)
    then obtain t where t: "t \<in> set sl" "slice_ID s = slice_ID t" by auto
    with a obtain sid rest pre ds post where
      "slice_ID s = sid # rest" "sid = pre @ ''_S'' @ ds @ post" "first_group_at pre ds post"
      by metis
    with findall_S_first_group [of pre ds post] assign_z_total [of s sid rest ds "findall_S post"]
    show ?thesis by simp
  qed
  then obtain out' where "assign_z_all mid' = Inr out'"
    using assign_z_all_total [of mid'] by blast
  then show "\<exists>out'. slice_alignment a1 a2 sv sl alpha n1 n2 dev = Inr out'"
    by (simp add: slice_alignment_def p)
qed


section \<open>The superposition step\<close>


lemma sum_lessThan_2: "(\<Sum>k<2. f k) = f 0 + f (1::nat)"
  by (simp add: numeral_2_eq_2)

lemma orthogonal2_entries:
  assumes "orthogonal2 a"
  shows "nrows a = 2" "ncols a = 2"
    "elem a 0 0 * elem a 0 0 + elem a 0 1 * elem a 0 1 = 1"
    "elem a 1 0 * elem a 1 0 + elem a 1 1 * elem a 1 1 = 1"
    "elem a 0 0 * elem a 1 0 + elem a 0 1 * elem a 1 1 = 0"
    "elem a 0 0 * elem a 0 0 + elem a 1 0 * elem a 1 0 = 1"
    "elem a 0 1 * elem a 0 1 + elem a 1 1 * elem a 1 1 = 1"
    "elem a 0 0 * elem a 0 1 + elem a 1 0 * elem a 1 1 = 0"
  using assms by (simp_all add: orthogonal2_def sum_lessThan_2)

lemma rotation_entries:
  assumes "sv H = (U, S, Vt)" "nrows Vt = ncols U"
  shows "rotation sv H =
           Inr \<lparr>nrows = ncols Vt, ncols = nrows U,
                elem = \<lambda>i j. \<Sum>k<nrows Vt. elem Vt k i * elem U j k\<rparr>"
  using assms by (simp add: rotation_def dot_def transpose_T_def)

lemma orthogonal_product_2x2:
  fixes a b c d p q r s :: real
  assumes "a * a + c * c = 1" "b * b + d * d = 1" "a * b + c * d = 0"
    and "p * p + r * r = 1" "q * q + s * s = 1" "p * q + r * s = 0"
  shows "(p * a + r * b) * (p * a + r * b) + (p * c + r * d) * (p * c + r * d) = 1"
    "(q * a + s * b) * (q * a + s * b) + (q * c + s * d) * (q * c + s * d) = 1"
    "(p * a + r * b) * (q * a + s * b) + (p * c + r * d) * (q * c + s * d) = 0"
proof -
  have "(p * a + r * b) * (p * a + r * b) + (p * c + r * d) * (p * c + r * d)
      = p * p * (a * a + c * c) + r * r * (b * b + d * d) + 2 * p * r * (a * b + c * d)"
    by (simp add: algebra_simps)
  then show "(p * a + r * b) * (p * a + r * b) + (p * c + r * d) * (p * c + r * d) = 1"
    using assms by simp
  have "(q * a + s * b) * (q * a + s * b) + (q * c + s * d) * (q * c + s * d)
      = q * q * (a * a + c * c) + s * s * (b * b + d * d) + 2 * q * s * (a * b + c * d)"
    by (simp add: algebra_simps)
  then show "(q * a + s * b) * (q * a + s * b) + (q * c + s * d) * (q * c + s * d) = 1"
    using assms by simp
  have "(p * a + r * b) * (q * a + s * b) + (p * c + r * d) * (q * c + s * d)
      = p * q * (a * a + c * c) + r * s * (b * b + d * d) + (p * s + r * q) * (a * b + c * d)"
    by (simp add: algebra_simps)
  then show "(p * a + r * b) * (q * a + s * b) + (p * c + r * d) * (q * c + s * d) = 0"
    using assms by simp
qed

lemma det_orthogonal_2x2:
  fixes a b c d :: real
  assumes "a * a + b * b = 1" "c * c + d * d = 1" "a * c + b * d = 0"
  shows "(a * d - b * c) * (a * d - b * c) = 1"
proof -
  have "(a * d - b * c) * (a * d - b * c)
      = (a * a + b * b) * (c * c + d * d) - (a * c + b * d) * (a * c + b * d)"
    by (simp add: algebra_simps)
  then show ?thesis using assms by simp
qed

text \<open>
  Claim C3. The matrix \<open>R = V \<cdot> U\<^sup>T\<close> that the superposition step builds from the factors
  of the decomposition is a two by two array with \<open>R \<cdot> R\<^sup>T\<close> the identity and determinant
  1 or -1, whatever matrix \<open>H\<close> was decomposed, provided the factors \<open>U\<close> and \<open>Vt\<close> that
  \<open>numpy.linalg.svd\<close> returns are orthogonal.
\<close>

theorem rotation_is_orthogonal:
  assumes "sv H = (U, S, Vt)" "orthogonal2 U" "orthogonal2 Vt"
  shows "\<exists>R RRt. rotation sv H = Inr R \<and> nrows R = 2 \<and> ncols R = 2 \<and>
           (\<forall>k<2. \<forall>l<2. elem R k l = V_Ut_entry U Vt k l) \<and>
           dot R (transpose_T R) = Inr RRt \<and> nrows RRt = 2 \<and> ncols RRt = 2 \<and>
           (\<forall>i<2. \<forall>j<2. elem RRt i j = (if i = j then 1 else 0)) \<and>
           (det2 R = 1 \<or> det2 R = - 1)"
proof -
  note u = orthogonal2_entries [OF assms(2)]
  note v = orthogonal2_entries [OF assms(3)]
  define R where "R = \<lparr>nrows = ncols Vt, ncols = nrows U,
                elem = \<lambda>i j. \<Sum>k<nrows Vt. elem Vt k i * elem U j k\<rparr>"
  define RRt where "RRt = \<lparr>nrows = nrows R, ncols = nrows R,
                elem = \<lambda>i j. \<Sum>k<ncols R. elem R i k * elem R j k\<rparr>"
  have r: "rotation sv H = Inr R"
    using rotation_entries [of sv H U S Vt] assms(1) u(1,2) v(1,2) by (simp add: R_def)
  have dims: "nrows R = 2" "ncols R = 2" "nrows RRt = 2" "ncols RRt = 2"
    by (simp_all add: R_def RRt_def u v)
  have d: "dot R (transpose_T R) = Inr RRt"
    by (simp add: dot_def transpose_T_def RRt_def)
  have e: "elem R i j = elem Vt 0 i * elem U j 0 + elem Vt 1 i * elem U j 1" for i j
    by (simp add: R_def v(1) sum_lessThan_2)
  have rr: "elem RRt i j = elem R i 0 * elem R j 0 + elem R i 1 * elem R j 1" for i j
    by (simp add: RRt_def dims sum_lessThan_2)
  have cols_u: "elem U 0 0 * elem U 0 0 + elem U 1 0 * elem U 1 0 = 1"
    "elem U 0 1 * elem U 0 1 + elem U 1 1 * elem U 1 1 = 1"
    "elem U 0 0 * elem U 0 1 + elem U 1 0 * elem U 1 1 = 0"
    by (rule u)+
  have cols_v: "elem Vt 0 0 * elem Vt 0 0 + elem Vt 1 0 * elem Vt 1 0 = 1"
    "elem Vt 0 1 * elem Vt 0 1 + elem Vt 1 1 * elem Vt 1 1 = 1"
    "elem Vt 0 0 * elem Vt 0 1 + elem Vt 1 0 * elem Vt 1 1 = 0"
    by (rule v)+
  note prod = orthogonal_product_2x2 [OF cols_u cols_v]
  have p00: "elem RRt 0 0 = 1" unfolding rr e by (rule prod(1))
  have p11: "elem RRt 1 1 = 1" unfolding rr e by (rule prod(2))
  have p01: "elem RRt 0 1 = 0" unfolding rr e by (rule prod(3))
  have p10: "elem RRt 1 0 = 0"
    using p01 unfolding rr by (simp only: mult.commute)
  have entries: "\<forall>i<2. \<forall>j<2. elem RRt i j = (if i = j then 1 else 0)"
  proof (intro allI impI)
    fix i j :: nat
    assume "i < 2" "j < 2"
    then have "(i = 0 \<or> i = 1) \<and> (j = 0 \<or> j = 1)" by auto
    then show "elem RRt i j = (if i = j then 1 else 0)"
      using p00 p01 p10 p11 by auto
  qed
  have "det2 R * det2 R = 1"
    unfolding det2_def
    by (rule det_orthogonal_2x2) (use p00 p11 p01 in \<open>simp_all only: rr\<close>)
  then have det: "det2 R = 1 \<or> det2 R = - 1"
    by (metis mult_cancel_right1 mult_minus_left square_eq_1_iff)
  have vu: "\<forall>k<2. \<forall>l<2. elem R k l = V_Ut_entry U Vt k l"
    by (simp add: V_Ut_entry_def R_def v(1))
  show ?thesis
    using r d entries det vu dims by blast
qed

lemma sum_axis1_props:
  "length (sum_axis1 plan) = nrows plan"
  "i < nrows plan \<Longrightarrow> sum_axis1 plan ! i = row_sum plan i"
  by (simp_all add: sum_axis1_def row_sum_def)

lemma sum_axis0_props:
  "length (sum_axis0 plan) = ncols plan"
  "j < ncols plan \<Longrightarrow> sum_axis0 plan ! j = col_sum plan j"
  by (simp_all add: sum_axis0_def col_sum_def)

lemma upt_0_2: "[0..<2] = [0, 1]"
  by (simp add: numeral_2_eq_2 upt_rec)

lemma center_rows_frame:
  assumes "length w = length (xy f)" "z_col f = None"
  shows "\<exists>C. center_rows w (frame_values f) = Inr C \<and> nrows C = length (xy f) \<and> ncols C = 2 \<and>
           (\<forall>i. elem C i 0 = fst (xy f ! i) - (\<Sum>i<length (xy f). w ! i * fst (xy f ! i))) \<and>
           (\<forall>i. elem C i 1 = snd (xy f ! i) - (\<Sum>i<length (xy f). w ! i * snd (xy f ! i)))"
  using assms
  by (simp add: center_rows_def bind_err_def vec_dot_def sub_rows_def frame_values_def upt_0_2)

lemma xy_rows_props:
  "length (xy_rows a) = nrows a"
  "i < nrows a \<Longrightarrow> xy_rows a ! i = (elem a i 0, elem a i 1)"
  by (simp_all add: xy_rows_def)

lemma xy_rows_centered:
  assumes "nrows C = length ps"
    "\<forall>i. elem C i 0 = fst (ps ! i) - cx" "\<forall>i. elem C i 1 = snd (ps ! i) - cy"
  shows "xy_rows C = centered ps (cx, cy)"
  using assms by (intro nth_equalityI) (simp_all add: xy_rows_def centered_def)

lemma coord_xy_rows:
  assumes "i < nrows a" "k < 2"
  shows "coord k (xy_rows a ! i) = elem a i k"
proof -
  from assms(2) have "k = 0 \<or> k = 1" by auto
  then show ?thesis using assms(1) by (auto simp: coord_def xy_rows_props)
qed

lemma cross_covariance_entries:
  assumes "nrows plan = nrows C1" "ncols plan = nrows C2"
  shows "\<exists>H. cross_covariance plan C1 C2 = Inr H \<and> nrows H = ncols C2 \<and> ncols H = ncols C1 \<and>
           (\<forall>k<2. \<forall>l<2. elem H k l = cross_cov_entry plan (xy_rows C1) (xy_rows C2) k l)"
proof -
  let ?H = "\<lparr>nrows = ncols C2, ncols = ncols C1,
             elem = \<lambda>k l. \<Sum>j<nrows C2. elem C2 j k * (\<Sum>i<nrows C1. elem plan i j * elem C1 i l)\<rparr>"
  have h: "cross_covariance plan C1 C2 = Inr ?H"
    using assms by (simp add: cross_covariance_def bind_err_def dot_def transpose_T_def)
  have "elem ?H k l = cross_cov_entry plan (xy_rows C1) (xy_rows C2) k l"
    if "k < 2" "l < 2" for k l
  proof -
    have "cross_cov_entry plan (xy_rows C1) (xy_rows C2) k l
        = (\<Sum>j<nrows C2. \<Sum>i<nrows C1. elem C2 j k * elem plan i j * elem C1 i l)"
      unfolding cross_cov_entry_def xy_rows_props(1)
      by (intro sum.cong refl) (simp add: coord_xy_rows that)
    also have "\<dots> = (\<Sum>j<nrows C2. elem C2 j k * (\<Sum>i<nrows C1. elem plan i j * elem C1 i l))"
      by (simp add: sum_distrib_left mult.assoc)
    finally show ?thesis by simp
  qed
  with h show ?thesis by (intro exI [of _ ?H]) simp
qed

lemma apply_rotation_rows:
  assumes "nrows R = 2" "ncols R = 2" "ncols C = 2"
    "\<forall>k<2. \<forall>l<2. elem R k l = E k l"
  shows "\<exists>rotated. dot R (transpose_T C) = Inr rotated \<and>
           frame_of_array (transpose_T rotated) =
             Inr \<lparr>xy = map (apply_R E) (xy_rows C), z_col = None\<rparr>"
proof -
  let ?rot = "\<lparr>nrows = nrows R, ncols = nrows C,
                elem = \<lambda>i j. \<Sum>k<ncols R. elem R i k * elem C j k\<rparr>"
  have d: "dot R (transpose_T C) = Inr ?rot"
    using assms(2,3) by (simp add: dot_def transpose_T_def)
  have "xy_rows (transpose_T ?rot) = map (apply_R E) (xy_rows C)"
    using assms
    by (intro nth_equalityI) (simp_all add: xy_rows_def transpose_T_def apply_R_def sum_lessThan_2)
  then have "frame_of_array (transpose_T ?rot) =
             Inr \<lparr>xy = map (apply_R E) (xy_rows C), z_col = None\<rparr>"
    using assms(1) by (simp add: frame_of_array_def transpose_T_def)
  with d show ?thesis by blast
qed

text \<open>
  Claim C2. For a plan whose shape fits the two point lists, the step centres the first
  list on its centroid under the row sums of the plan and the second on its centroid
  under the column sums, forms \<open>H\<close> with the entries of
  \<open>centeredB\<^sup>T \<cdot> plan\<^sup>T \<cdot> centeredA\<close>, decomposes it, and returns the first list centred
  and unrotated and the second list centred and multiplied by \<open>R = V \<cdot> U\<^sup>T\<close>. The result
  is this function of the inputs alone, and \<open>R\<close> is used as it is, whatever its
  determinant.
\<close>

theorem superposition_follows_procrustes_steps:
  assumes "nrows plan = length (xy f1)" "ncols plan = length (xy f2)"
    "z_col f1 = None" "z_col f2 = None"
  shows "\<exists>slice1Coor slice2Coor H U S Vt.
     center_rows (sum_axis1 plan) (frame_values f1) = Inr slice1Coor \<and>
     xy_rows slice1Coor = centered (xy f1) (weighted_centroid (row_sum plan) (xy f1)) \<and>
     center_rows (sum_axis0 plan) (frame_values f2) = Inr slice2Coor \<and>
     xy_rows slice2Coor = centered (xy f2) (weighted_centroid (col_sum plan) (xy f2)) \<and>
     cross_covariance plan slice1Coor slice2Coor = Inr H \<and> nrows H = 2 \<and> ncols H = 2 \<and>
     (\<forall>k<2. \<forall>l<2.
        elem H k l = cross_cov_entry plan (xy_rows slice1Coor) (xy_rows slice2Coor) k l) \<and>
     sv H = (U, S, Vt) \<and>
     (nrows U = 2 \<and> ncols U = 2 \<and> nrows Vt = 2 \<and> ncols Vt = 2 \<longrightarrow>
        superposition sv plan f1 f2 =
          Inr (\<lparr>xy = xy_rows slice1Coor, z_col = None\<rparr>,
               \<lparr>xy = map (apply_R (V_Ut_entry U Vt)) (xy_rows slice2Coor), z_col = None\<rparr>))"
proof -
  let ?c1 = "weighted_centroid (row_sum plan) (xy f1)"
  let ?c2 = "weighted_centroid (col_sum plan) (xy f2)"
  from center_rows_frame [of "sum_axis1 plan" f1] assms obtain C1 where
    c1: "center_rows (sum_axis1 plan) (frame_values f1) = Inr C1"
      "nrows C1 = length (xy f1)" "ncols C1 = 2"
      "\<forall>i. elem C1 i 0 = fst (xy f1 ! i) - (\<Sum>i<length (xy f1). sum_axis1 plan ! i * fst (xy f1 ! i))"
      "\<forall>i. elem C1 i 1 = snd (xy f1 ! i) - (\<Sum>i<length (xy f1). sum_axis1 plan ! i * snd (xy f1 ! i))"
    by (auto simp: sum_axis1_props)
  from center_rows_frame [of "sum_axis0 plan" f2] assms obtain C2 where
    c2: "center_rows (sum_axis0 plan) (frame_values f2) = Inr C2"
      "nrows C2 = length (xy f2)" "ncols C2 = 2"
      "\<forall>i. elem C2 i 0 = fst (xy f2 ! i) - (\<Sum>i<length (xy f2). sum_axis0 plan ! i * fst (xy f2 ! i))"
      "\<forall>i. elem C2 i 1 = snd (xy f2 ! i) - (\<Sum>i<length (xy f2). sum_axis0 plan ! i * snd (xy f2 ! i))"
    by (auto simp: sum_axis0_props)
  have w1: "(\<Sum>i<length (xy f1). sum_axis1 plan ! i * g i) = (\<Sum>i<length (xy f1). row_sum plan i * g i)"
    for g :: "nat \<Rightarrow> real"
    by (intro sum.cong refl) (simp add: sum_axis1_props assms(1))
  have w2: "(\<Sum>i<length (xy f2). sum_axis0 plan ! i * g i) = (\<Sum>i<length (xy f2). col_sum plan i * g i)"
    for g :: "nat \<Rightarrow> real"
    by (intro sum.cong refl) (simp add: sum_axis0_props assms(2))
  have x1: "xy_rows C1 = centered (xy f1) ?c1"
    unfolding weighted_centroid_def
    by (rule xy_rows_centered) (use c1 in \<open>simp_all add: w1\<close>)
  have x2: "xy_rows C2 = centered (xy f2) ?c2"
    unfolding weighted_centroid_def
    by (rule xy_rows_centered) (use c2 in \<open>simp_all add: w2\<close>)
  from cross_covariance_entries [of plan C1 C2] assms c1(2) c2(2) obtain H where
    h: "cross_covariance plan C1 C2 = Inr H" "nrows H = 2" "ncols H = 2"
      "\<forall>k<2. \<forall>l<2. elem H k l = cross_cov_entry plan (xy_rows C1) (xy_rows C2) k l"
    using c1(3) c2(3) by auto
  obtain U S Vt where sv: "sv H = (U, S, Vt)"
    by (cases "sv H") auto
  have final: "superposition sv plan f1 f2 =
          Inr (\<lparr>xy = xy_rows C1, z_col = None\<rparr>,
               \<lparr>xy = map (apply_R (V_Ut_entry U Vt)) (xy_rows C2), z_col = None\<rparr>)"
    if shapes: "nrows U = 2 \<and> ncols U = 2 \<and> nrows Vt = 2 \<and> ncols Vt = 2"
  proof -
    define R where "R = \<lparr>nrows = ncols Vt, ncols = nrows U,
                elem = \<lambda>i j. \<Sum>k<nrows Vt. elem Vt k i * elem U j k\<rparr>"
    have r: "rotation sv H = Inr R"
      using rotation_entries [of sv H U S Vt] sv shapes by (simp add: R_def)
    have rd: "nrows R = 2" "ncols R = 2" "\<forall>k<2. \<forall>l<2. elem R k l = V_Ut_entry U Vt k l"
      using shapes by (simp_all add: R_def V_Ut_entry_def)
    from apply_rotation_rows [OF rd(1,2) c2(3) rd(3)] obtain rotated where
      "dot R (transpose_T C2) = Inr rotated"
      "frame_of_array (transpose_T rotated) =
         Inr \<lparr>xy = map (apply_R (V_Ut_entry U Vt)) (xy_rows C2), z_col = None\<rparr>"
      by blast
    then show ?thesis
      by (simp add: superposition_def bind_err_def c1(1) c2(1) h(1) r frame_of_frame_def)
  qed
  show ?thesis
    using c1(1) x1 c2(1) x2 h sv final by blast
qed


section \<open>The example stack\<close>

lemma sum_lessThan_3: "(\<Sum>k<3. f k) = f 0 + f 1 + f (2::nat)"
  by (simp add: numeral_3_eq_3 numeral_2_eq_2)

lemma upt_0_3: "[0..<3] = [0, 1, 2]"
  by (simp add: numeral_3_eq_3 upt_rec)

lemma example_orthogonal: "orthogonal2 example_U" "orthogonal2 example_Vt"
  by (simp_all add: orthogonal2_def example_U_def example_Vt_def sum_lessThan_2)

theorem rotation_is_orthogonal_witness:
  "\<exists>R RRt. rotation example_svd example_H = Inr R \<and>
     dot R (transpose_T R) = Inr RRt \<and>
     elem RRt 0 0 = 1 \<and> elem RRt 0 1 = 0 \<and> elem RRt 1 0 = 0 \<and> elem RRt 1 1 = 1 \<and>
     det2 R = - 1"
proof -
  have sv: "example_svd example_H = (example_U, [2, 2 / 3], example_Vt)"
    by (simp add: example_svd_def)
  from rotation_is_orthogonal [of example_svd example_H example_U "[2, 2 / 3]" example_Vt]
    sv example_orthogonal obtain R RRt where
    r: "rotation example_svd example_H = Inr R"
      "\<forall>k<2. \<forall>l<2. elem R k l = V_Ut_entry example_U example_Vt k l"
      "dot R (transpose_T R) = Inr RRt"
      "\<forall>i<2. \<forall>j<2. elem RRt i j = (if i = j then 1 else 0)"
    by blast
  have "elem R 0 0 = 1" "elem R 0 1 = 0" "elem R 1 0 = 0" "elem R 1 1 = - 1"
    using r(2) by (simp_all add: V_Ut_entry_def example_U_def example_Vt_def sum_lessThan_2)
  then have "det2 R = - 1" by (simp add: det2_def)
  moreover have "elem RRt 0 0 = 1" "elem RRt 0 1 = 0" "elem RRt 1 0 = 0" "elem RRt 1 1 = 1"
    using r(4) by simp_all
  ultimately show ?thesis using r(1,3) by blast
qed

theorem superposition_follows_procrustes_steps_witness:
  "superposition example_svd example_plan example_frame_A example_frame_B =
     Inr (\<lparr>xy = [(2, 0), (- 1, 1), (- 1, - 1)], z_col = None\<rparr>,
          \<lparr>xy = [(2, 0), (- 1, 1), (- 1, - 1)], z_col = None\<rparr>) \<and>
   centered (xy example_frame_B) (weighted_centroid (col_sum example_plan) (xy example_frame_B))
     = [(2, 0), (- 1, - 1), (- 1, 1)] \<and>
   det2 \<lparr>nrows = 2, ncols = 2, elem = V_Ut_entry example_U example_Vt\<rparr> = - 1"
proof -
  have shapes: "nrows example_plan = length (xy example_frame_A)"
    "ncols example_plan = length (xy example_frame_B)"
    "z_col example_frame_A = None" "z_col example_frame_B = None"
    by (simp_all add: example_plan_def example_frame_A_def example_frame_B_def)
  from superposition_follows_procrustes_steps [OF shapes, of example_svd]
  obtain C1 C2 H U S Vt where
    a: "xy_rows C1 = centered (xy example_frame_A)
          (weighted_centroid (row_sum example_plan) (xy example_frame_A))" and
    b: "xy_rows C2 = centered (xy example_frame_B)
          (weighted_centroid (col_sum example_plan) (xy example_frame_B))" and
    sv: "example_svd H = (U, S, Vt)" and
    res: "nrows U = 2 \<and> ncols U = 2 \<and> nrows Vt = 2 \<and> ncols Vt = 2 \<longrightarrow>
        superposition example_svd example_plan example_frame_A example_frame_B =
          Inr (\<lparr>xy = xy_rows C1, z_col = None\<rparr>,
               \<lparr>xy = map (apply_R (V_Ut_entry U Vt)) (xy_rows C2), z_col = None\<rparr>)"
    by blast
  from sv have uv: "U = example_U" "Vt = example_Vt"
    by (simp_all add: example_svd_def)
  have ca: "centered (xy example_frame_A)
          (weighted_centroid (row_sum example_plan) (xy example_frame_A))
        = [(2, 0), (- 1, 1), (- 1, - 1)]"
    by (simp add: centered_def weighted_centroid_def row_sum_def example_plan_def
        example_frame_A_def sum_lessThan_3)
  have cb: "centered (xy example_frame_B)
          (weighted_centroid (col_sum example_plan) (xy example_frame_B))
        = [(2, 0), (- 1, - 1), (- 1, 1)]"
    by (simp add: centered_def weighted_centroid_def col_sum_def example_plan_def
        example_frame_B_def sum_lessThan_3)
  have e: "V_Ut_entry example_U example_Vt 0 0 = 1"
    "V_Ut_entry example_U example_Vt 0 (Suc 0) = 0"
    "V_Ut_entry example_U example_Vt (Suc 0) 0 = 0"
    "V_Ut_entry example_U example_Vt (Suc 0) (Suc 0) = - 1"
    by (simp_all add: V_Ut_entry_def example_U_def example_Vt_def sum_lessThan_2)
  have "nrows U = 2 \<and> ncols U = 2 \<and> nrows Vt = 2 \<and> ncols Vt = 2"
    by (simp add: uv example_U_def example_Vt_def)
  with res have "superposition example_svd example_plan example_frame_A example_frame_B =
          Inr (\<lparr>xy = xy_rows C1, z_col = None\<rparr>,
               \<lparr>xy = map (apply_R (V_Ut_entry U Vt)) (xy_rows C2), z_col = None\<rparr>)"
    by blast
  then have "superposition example_svd example_plan example_frame_A example_frame_B =
     Inr (\<lparr>xy = [(2, 0), (- 1, 1), (- 1, - 1)], z_col = None\<rparr>,
          \<lparr>xy = [(2, 0), (- 1, 1), (- 1, - 1)], z_col = None\<rparr>)"
    by (simp add: a b ca cb uv apply_R_def e)
  moreover have "det2 \<lparr>nrows = 2, ncols = 2, elem = V_Ut_entry example_U example_Vt\<rparr> = - 1"
    by (simp add: det2_def e)
  ultimately show ?thesis using cb by simp
qed

lemma example_superposition:
  "superposition example_svd example_plan example_frame_A example_frame_B =
     Inr (\<lparr>xy = [(2, 0), (- 1, 1), (- 1, - 1)], z_col = None\<rparr>,
          \<lparr>xy = [(2, 0), (- 1, 1), (- 1, - 1)], z_col = None\<rparr>)"
  by (simp add: superposition_def bind_err_def center_rows_def vec_dot_def sub_rows_def
      frame_values_def sum_axis1_def sum_axis0_def cross_covariance_def dot_def
      transpose_T_def rotation_def example_svd_def example_U_def example_Vt_def
      frame_of_array_def frame_of_frame_def xy_rows_def example_plan_def
      example_frame_A_def example_frame_B_def sum_lessThan_3 sum_lessThan_2 upt_0_3 upt_0_2)

lemma example_pairwise_passes:
  "pairwise_passes example_aligner example_aligner example_svd
      [example_slice_A, example_slice_B] (1 / 10) 200 100000 Cpu =
     Inr [example_slice_A\<lparr>spatial := \<lparr>xy = [(2, 0), (- 1, 1), (- 1, - 1)], z_col = None\<rparr>\<rparr>,
          example_slice_B\<lparr>spatial := \<lparr>xy = [(2, 0), (- 1, 1), (- 1, - 1)], z_col = None\<rparr>\<rparr>]"
proof -
  have "spatial example_slice_A = example_frame_A" "spatial example_slice_B = example_frame_B"
    by (simp_all add: example_slice_A_def example_slice_B_def)
  then show ?thesis
    by (simp add: pairwise_passes_def example_aligner_def example_superposition)
qed

lemma example_first_groups:
  "first_group_at ''E16'' ''2'' ''_a''" "first_group_at ''E16'' ''10'' ''''"
  by (simp_all add: first_group_at_def is_digit_def upt_0_3)

lemma example_values: "digits_value ''2'' = 2" "digits_value ''10'' = 10"
  by (simp_all add: digits_value_def)

lemma example_findall: "findall_S ''E16_S2_a'' = [''2'']" "findall_S ''E16_S10'' = [''10'']"
  by (simp_all add: is_digit_def)

theorem slice_alignment_assigns_z_from_identifier_witness:
  "\<exists>out. slice_alignment example_aligner example_aligner example_svd
            [example_slice_A, example_slice_B] (1 / 10) 200 100000 Cpu = Inr out \<and>
         length out = 2 \<and>
         z_col (spatial (out ! 0)) = Some [2, 2, 2] \<and> new_z (out ! 0) = Some [2, 2, 2] \<and>
         z_col (spatial (out ! 1)) = Some [10, 10, 10] \<and> new_z (out ! 1) = Some [10, 10, 10] \<and>
         xy (spatial (out ! 1)) = [(2, 0), (- 1, 1), (- 1, - 1)] \<and>
         new_x (out ! 1) = Some [2, - 1, - 1] \<and> new_y (out ! 1) = Some [0, 1, - 1]"
proof -
  let ?sl = "[example_slice_A, example_slice_B]"
  let ?mid = "[example_slice_A\<lparr>spatial := \<lparr>xy = [(2, 0), (- 1, 1), (- 1, - 1)], z_col = None\<rparr>\<rparr>,
          example_slice_B\<lparr>spatial := \<lparr>xy = [(2, 0), (- 1, 1), (- 1, - 1)], z_col = None\<rparr>\<rparr>]"
  note passes = example_pairwise_passes
  have idA: "\<exists>sid rest pre ds post. slice_ID example_slice_A = sid # rest \<and>
      sid = pre @ ''_S'' @ ds @ post \<and> first_group_at pre ds post"
    using example_first_groups(1)
    by (intro exI [of _ "''E16_S2_a''"] exI [of _ "[''E16_S2_a'', ''E16_S2_a'']"]
          exI [of _ "''E16''"] exI [of _ "''2''"] exI [of _ "''_a''"])
       (simp add: example_slice_A_def)
  have idB: "\<exists>sid rest pre ds post. slice_ID example_slice_B = sid # rest \<and>
      sid = pre @ ''_S'' @ ds @ post \<and> first_group_at pre ds post"
    using example_first_groups(2)
    by (intro exI [of _ "''E16_S10''"] exI [of _ "[''E16_S10'', ''E16_S10'']"]
          exI [of _ "''E16''"] exI [of _ "''10''"] exI [of _ "[]"])
       (simp add: example_slice_B_def)
  have ids: "\<forall>s \<in> set ?sl. \<exists>sid rest pre ds post. slice_ID s = sid # rest \<and>
      sid = pre @ ''_S'' @ ds @ post \<and> first_group_at pre ds post"
    using idA idB by simp
  from slice_alignment_assigns_z_from_identifier
         [of example_aligner example_aligner example_svd ?sl "1 / 10" 200 100000 Cpu _ ?mid]
       passes ids
  obtain out where
    out: "slice_alignment example_aligner example_aligner example_svd ?sl (1 / 10) 200 100000 Cpu
            = Inr out"
    by blast
  from slice_alignment_assigns_z_from_identifier
         [of example_aligner example_aligner example_svd ?sl "1 / 10" 200 100000 Cpu out ?mid]
       out passes
  have len: "length out = 2" and
    each: "\<forall>k<length ?sl. \<exists>sid rest pre ds post.
            slice_ID (?sl ! k) = sid # rest \<and> sid = pre @ ''_S'' @ ds @ post \<and>
            first_group_at pre ds post \<and>
            z_col (spatial (out ! k)) =
              Some (replicate (length (xy (spatial (?mid ! k)))) (digits_value ds)) \<and>
            new_z (out ! k) =
              Some (replicate (length (xy (spatial (?mid ! k)))) (digits_value ds)) \<and>
            xy (spatial (out ! k)) = xy (spatial (?mid ! k)) \<and>
            new_x (out ! k) = Some (map fst (xy (spatial (?mid ! k)))) \<and>
            new_y (out ! k) = Some (map snd (xy (spatial (?mid ! k))))"
    by auto
  from each [rule_format, of 0] obtain sidA restA preA dsA postA where
    a: "slice_ID example_slice_A = sidA # restA" "sidA = preA @ ''_S'' @ dsA @ postA"
       "first_group_at preA dsA postA"
       "z_col (spatial (out ! 0)) = Some [digits_value dsA, digits_value dsA, digits_value dsA]"
       "new_z (out ! 0) = Some [digits_value dsA, digits_value dsA, digits_value dsA]"
    by auto
  from a(1) have "sidA = ''E16_S2_a''" by (simp add: example_slice_A_def)
  with findall_S_first_group [OF a(3)] a(2) example_findall(1) have "dsA = ''2''" by simp
  with a(4,5) have zA: "z_col (spatial (out ! 0)) = Some [2, 2, 2]" "new_z (out ! 0) = Some [2, 2, 2]"
    by (simp_all add: example_values)
  from each [rule_format, of 1] obtain sidB restB preB dsB postB where
    b: "slice_ID example_slice_B = sidB # restB" "sidB = preB @ ''_S'' @ dsB @ postB"
       "first_group_at preB dsB postB"
       "z_col (spatial (out ! 1)) = Some [digits_value dsB, digits_value dsB, digits_value dsB]"
       "new_z (out ! 1) = Some [digits_value dsB, digits_value dsB, digits_value dsB]"
       "xy (spatial (out ! 1)) = [(2, 0), (- 1, 1), (- 1, - 1)]"
       "new_x (out ! 1) = Some [2, - 1, - 1]" "new_y (out ! 1) = Some [0, 1, - 1]"
    by auto
  from b(1) have "sidB = ''E16_S10''" by (simp add: example_slice_B_def)
  with findall_S_first_group [OF b(3)] b(2) example_findall(2) have "dsB = ''10''" by simp
  with b(4,5) have zB: "z_col (spatial (out ! 1)) = Some [10, 10, 10]"
    "new_z (out ! 1) = Some [10, 10, 10]"
    by (simp_all add: example_values)
  show ?thesis using out len zA zB b(6,7,8) by blast
qed


end
